theory Spec2Isabelle
  imports Complex_Main
begin

section \<open>Python values used by the renderer\<close>

text \<open>
  The renderer of \<^verbatim>\<open>src/historical_timelines/renderer.py\<close> works on dictionaries
  whose values are columns (lists) of strings and numbers. A cell is a string or an
  integer; Python's \<^verbatim>\<open>==\<close> never identifies a string with a number, which is
  the equality of this datatype.
\<close>

datatype pyval = Str string | Num int

type_synonym pydict = "string \<rightharpoonup> pyval list"

text \<open>
  Python floats only pass through the renderer (a bar height, an alpha value): no arithmetic
  is done on them, so a rational stands for the literal that was written.
\<close>

type_synonym pyfloat = rat

text \<open>
  \<^verbatim>\<open>KeyError\<close> is what a missing dictionary key raises; \<^verbatim>\<open>RuntimeError\<close> is what the
  plotting library raises, for instance when a model already belongs to another document.
\<close>

datatype error = KeyError string | RuntimeError string

subsection \<open>Decimal rendering of integers: Python's \<^verbatim>\<open>str(i)\<close>\<close>

definition digit_char :: "nat \<Rightarrow> char" where
  "digit_char d = ''0123456789'' ! d"

fun str_nat :: "nat \<Rightarrow> string" where
  "str_nat n = (if n < 10 then [digit_char n] else str_nat (n div 10) @ [digit_char (n mod 10)])"

declare str_nat.simps [simp del]

definition str :: "int \<Rightarrow> string" where
  "str i = (if i < 0 then ''-'' @ str_nat (nat (- i)) else str_nat (nat i))"

section \<open>The plotting library's objects, as far as the renderer configures them\<close>

datatype tool = BoxZoomTool | ResetTool | PanTool string

datatype ColumnDataSource = ColumnDataSource (data: pydict)

text \<open>
  A glyph coordinate is either the name of a column of the source (a plain Python
  string) or a constant wrapped by \<^verbatim>\<open>value(...)\<close>.
\<close>

datatype spec = Field string | Value string

subsection \<open>The JavaScript of the tick formatter\<close>

text \<open>
  \<^verbatim>\<open>CustomJSTickFormatter(code=...)\<close> receives a JavaScript function body over the
  variable \<^verbatim>\<open>tick\<close>. The two bodies of \<^verbatim>\<open>format_xaxis\<close> use a conditional,
  a comparison, \<^verbatim>\<open>Math.abs\<close>, \<^verbatim>\<open>+\<close> and literals; this is their syntax, with
  an evaluator.

  A tick is a finite double, that is a rational number (both zeros are the rational 0:
  neither is below 0 and both print as \<^verbatim>\<open>0\<close>). Comparing a double with 0 and taking its
  absolute value are exact. \<^verbatim>\<open>+\<close> concatenates as soon as one operand is a string,
  converting the other with JavaScript's number-to-string. That conversion is the parameter
  \<open>to_string\<close> of the evaluator: it is the language's, not the renderer's, and it prints
  \<^verbatim>\<open>2000\<close> for 2000, \<^verbatim>\<open>0.5\<close> for one half and \<^verbatim>\<open>1e+21\<close> for \<open>10^21\<close>. Operand
  combinations that the two bodies never produce (an addition of two numbers, which rounds;
  a boolean in an addition; a condition that is not a boolean; a comparison of strings) are
  left without a value.
\<close>

datatype js_expr =
    Tick
  | NumLit rat
  | StrLit string
  | Lt js_expr js_expr
  | MathAbs js_expr
  | Plus js_expr js_expr
  | Cond js_expr js_expr js_expr

datatype js_val = JNum rat | JStr string | JBool bool

fun js_to_string :: "(rat \<Rightarrow> string) \<Rightarrow> js_val \<Rightarrow> string" where
  "js_to_string to_string (JNum x) = to_string x"
| "js_to_string to_string (JStr s) = s"
| "js_to_string to_string (JBool b) = (if b then ''true'' else ''false'')"

fun js_plus :: "(rat \<Rightarrow> string) \<Rightarrow> js_val \<Rightarrow> js_val \<Rightarrow> js_val option" where
  "js_plus to_string (JStr a) v = Some (JStr (a @ js_to_string to_string v))"
| "js_plus to_string v (JStr b) = Some (JStr (js_to_string to_string v @ b))"
| "js_plus to_string _ _ = None"

fun js_eval :: "(rat \<Rightarrow> string) \<Rightarrow> rat \<Rightarrow> js_expr \<Rightarrow> js_val option" where
  "js_eval to_string t Tick = Some (JNum t)"
| "js_eval to_string t (NumLit x) = Some (JNum x)"
| "js_eval to_string t (StrLit s) = Some (JStr s)"
| "js_eval to_string t (Lt a b) =
     (case (js_eval to_string t a, js_eval to_string t b) of
        (Some (JNum x), Some (JNum y)) \<Rightarrow> Some (JBool (x < y))
      | _ \<Rightarrow> None)"
| "js_eval to_string t (MathAbs a) =
     (case js_eval to_string t a of Some (JNum x) \<Rightarrow> Some (JNum (abs x)) | _ \<Rightarrow> None)"
| "js_eval to_string t (Plus a b) =
     (case (js_eval to_string t a, js_eval to_string t b) of
        (Some x, Some y) \<Rightarrow> js_plus to_string x y
      | _ \<Rightarrow> None)"
| "js_eval to_string t (Cond c a b) =
     (case js_eval to_string t c of
        Some (JBool True) \<Rightarrow> js_eval to_string t a
      | Some (JBool False) \<Rightarrow> js_eval to_string t b
      | _ \<Rightarrow> None)"

text \<open>
  The formatter holds the expression that its body returns; the label of a tick is the
  string form of the value of that expression.
\<close>

datatype formatter = CustomJSTickFormatter (code: js_expr)

definition format_tick :: "(rat \<Rightarrow> string) \<Rightarrow> formatter \<Rightarrow> rat \<Rightarrow> string option" where
  "format_tick to_string f t = map_option (js_to_string to_string) (js_eval to_string t (code f))"

subsection \<open>Glyphs, label sets and the figure\<close>

datatype glyph =
    Scatter (sc_x: string) (sc_y: string) (sc_size: int) (sc_source: ColumnDataSource)
      (sc_color: string)
  | HBar (hb_right: string) (hb_left: string) (hb_y: spec) (hb_height: pyfloat)
      (hb_color: string) (hb_source: ColumnDataSource)

text \<open>
  A hover tool with its \<^verbatim>\<open>tooltips\<close> attribute, a list of (label, value) pairs.
\<close>

record HoverTool =
  tooltips :: "(string \<times> string) list"

record LabelSet =
  ls_x :: string
  ls_y :: spec
  ls_text :: string
  ls_y_offset :: int
  ls_text_font_size :: string
  ls_text_color :: string
  ls_text_align :: string
  ls_source :: ColumnDataSource

text \<open>The keyword arguments that \<^verbatim>\<open>render_timeline\<close> forwards to \<^verbatim>\<open>figure\<close>.\<close>

record figure_kwargs =
  fig_title :: string
  x_axis_label :: string
  y_axis_label :: string
  fig_height :: int
  fig_width :: int
  y_range :: "pyval list"
  background_fill_color :: string
  border_fill_color :: string
  background_fill_alpha :: pyfloat
  border_fill_alpha :: pyfloat
  fig_tools :: "tool list"

text \<open>
  The figure object: the arguments it was built from and the attributes that the renderer
  assigns or extends afterwards (the toolbar logo, the glyph renderers in the order of the
  calls, the layouts in the order of \<^verbatim>\<open>add_layout\<close>, the formatter of the x axis).
  \<^verbatim>\<open>plot.hover\<close> is the list of the hover tools among the tools of the plot; an
  assignment \<^verbatim>\<open>plot.hover.tooltips = v\<close> is broadcast to each of them, and assigns
  nothing when the plot has no hover tool.
\<close>

record figure =
  kwargs :: figure_kwargs
  toolbar_logo :: "string option"
  hover :: "HoverTool list"
  renderers :: "glyph list"
  layouts :: "LabelSet list"
  xaxis_formatter :: "formatter option"

text \<open>
  The library's constructor \<^verbatim>\<open>figure(**kwargs)\<close>: a fresh plot with the library's
  default logo, no glyph, no layout, and the default tick formatter. Its tools are the
  objects passed as \<^verbatim>\<open>tools\<close>; a \<open>tool\<close> is a zoom, reset or pan tool, so the plot has
  no hover tool.
\<close>

definition bokeh_figure :: "figure_kwargs \<Rightarrow> figure" where
  "bokeh_figure kw =
     \<lparr>kwargs = kw, toolbar_logo = Some ''normal'', hover = [],
      renderers = [], layouts = [], xaxis_formatter = None\<rparr>"

text \<open>
  The two output calls of the library, \<^verbatim>\<open>show(p, title=...)\<close> and
  \<^verbatim>\<open>save(p, output, title=...)\<close>. Whether such a call returns or raises is decided by
  the library and by what it has done before (it raises \<^verbatim>\<open>RuntimeError\<close> when a tool of the
  chart already belongs to the document of an earlier output): a \<open>library\<close> gives, for a
  call, \<open>None\<close> when the call returns and the error when it raises.
\<close>

datatype io_effect = Show figure string | Save figure string string

type_synonym library = "io_effect \<Rightarrow> error option"

section \<open>The timeline and its renderer\<close>

text \<open>
  \<^verbatim>\<open>HistoricalTimeline\<close> lives in \<^verbatim>\<open>timeline.py\<close>, outside the rendered module. The
  renderer reads its title and the results of its two accessors, which are the fields
  here.
\<close>

record HistoricalTimeline =
  title :: string
  create_event_dict :: pydict
  create_period_list :: "pydict list"

record HistoricalTimelineRenderer =
  tl' :: HistoricalTimeline
  bg_color :: string
  bg_alpha :: pyfloat
  period_color :: string
  event_color :: string
  tools :: "tool list"

text \<open>
  Every method takes \<open>self\<close> and returns its result paired with \<open>self\<close> as the method
  leaves it; a method that mutates the plot it is given returns the updated plot. The
  constructor's defaults are \<^verbatim>\<open>"white"\<close>, \<^verbatim>\<open>1\<close>, \<^verbatim>\<open>"red"\<close> and \<^verbatim>\<open>"blue"\<close>; the
  defaults of the other methods are written out where \<^verbatim>\<open>render_timeline\<close> relies on them.
\<close>

definition init ::
  "HistoricalTimeline \<Rightarrow> string \<Rightarrow> pyfloat \<Rightarrow> string \<Rightarrow> string \<Rightarrow> HistoricalTimelineRenderer"
where
  "init timeline bg_color' bg_alpha' period_color' event_color' =
     \<lparr>tl' = timeline, bg_color = bg_color', bg_alpha = bg_alpha',
      period_color = period_color', event_color = event_color',
      tools = [BoxZoomTool, ResetTool, PanTool ''width'']\<rparr>"

definition get_source_from_event_dict ::
  "HistoricalTimelineRenderer \<Rightarrow> pydict \<Rightarrow> ColumnDataSource \<times> HistoricalTimelineRenderer"
where
  "get_source_from_event_dict self event_dict = (ColumnDataSource event_dict, self)"

definition setup_figure ::
  "HistoricalTimelineRenderer \<Rightarrow> figure_kwargs \<Rightarrow> figure \<times> HistoricalTimelineRenderer"
where
  "setup_figure self kw = (let fig = bokeh_figure kw in (fig\<lparr>toolbar_logo := None\<rparr>, self))"

definition get_y_range ::
  "HistoricalTimelineRenderer \<Rightarrow> pydict \<Rightarrow> pydict list
     \<Rightarrow> (error + pyval list) \<times> HistoricalTimelineRenderer"
where
  "get_y_range self event_dict period_list =
     (let y_range0 = fold (\<lambda>i ys. ys @ [Str (''p'' @ str (int i))]) [0..<length period_list] []
      in case event_dict ''label'' of
           None \<Rightarrow> (Inl (KeyError ''label''), self)
         | Some labels \<Rightarrow>
             (Inr (fold (\<lambda>label ys. if label \<notin> set ys then ys @ [label] else ys) labels y_range0),
              self))"

definition render_events ::
  "HistoricalTimelineRenderer \<Rightarrow> figure \<Rightarrow> ColumnDataSource \<Rightarrow> string \<Rightarrow> string \<Rightarrow> int
     \<Rightarrow> figure \<times> HistoricalTimelineRenderer"
where
  "render_events self plot source x y sz =
     (plot\<lparr>renderers := renderers plot @ [Scatter x y sz source (event_color self)]\<rparr>, self)"

definition event_tooltips ::
  "HistoricalTimelineRenderer \<Rightarrow> figure \<Rightarrow> string list \<Rightarrow> figure \<times> HistoricalTimelineRenderer"
where
  "event_tooltips self plot tooltip_names =
     (let tooltips = fold (\<lambda>tool ts. ts @ [(tool, ''@'' @ tool)]) tooltip_names []
      in (plot\<lparr>hover := map (\<lambda>h. h\<lparr>tooltips := tooltips\<rparr>) (hover plot)\<rparr>, self))"

definition event_labels ::
  "HistoricalTimelineRenderer \<Rightarrow> figure \<Rightarrow> ColumnDataSource \<Rightarrow> string \<Rightarrow> string \<Rightarrow> string
     \<Rightarrow> int \<Rightarrow> string \<Rightarrow> string \<Rightarrow> string \<Rightarrow> figure \<times> HistoricalTimelineRenderer"
where
  "event_labels self plot source x y txt y_offset text_font_size text_color text_align =
     (let labels = \<lparr>ls_x = x, ls_y = Field y, ls_text = txt, ls_y_offset = y_offset,
                    ls_text_font_size = text_font_size, ls_text_color = text_color,
                    ls_text_align = text_align, ls_source = source\<rparr>
      in (plot\<lparr>layouts := layouts plot @ [labels]\<rparr>, self))"

text \<open>
  The call is \<^verbatim>\<open>plot.hbar(right='start', left='end', y=value("p" + str(i)), ...)\<close>: the
  first argument of \<open>HBar\<close> is the \<^verbatim>\<open>right\<close> keyword, the second the \<^verbatim>\<open>left\<close> one.
\<close>

definition render_periods ::
  "HistoricalTimelineRenderer \<Rightarrow> figure \<Rightarrow> pydict list \<Rightarrow> pyfloat
     \<Rightarrow> figure \<times> HistoricalTimelineRenderer"
where
  "render_periods self plot period_list height =
     fold (\<lambda>i (plot, self).
             let period_group = period_list ! i;
                 (source, self) = get_source_from_event_dict self period_group
             in (plot\<lparr>renderers := renderers plot @
                    [HBar ''start'' ''end'' (Value (''p'' @ str (int i))) height
                       (period_color self) source]\<rparr>, self))
       [0..<length period_list] (plot, self)"

definition period_labels ::
  "HistoricalTimelineRenderer \<Rightarrow> figure \<Rightarrow> pydict list \<Rightarrow> string \<Rightarrow> int \<Rightarrow> string \<Rightarrow> string
     \<Rightarrow> string \<Rightarrow> figure \<times> HistoricalTimelineRenderer"
where
  "period_labels self plot period_list txt y_offset text_font_size text_color text_align =
     fold (\<lambda>i (plot, self).
             let period_group = period_list ! i;
                 (source, self) = get_source_from_event_dict self period_group;
                 labels = \<lparr>ls_x = ''mid'', ls_y = Value (''p'' @ str (int i)), ls_text = txt,
                           ls_y_offset = y_offset, ls_text_font_size = text_font_size,
                           ls_text_color = text_color, ls_text_align = text_align,
                           ls_source = source\<rparr>
             in (plot\<lparr>layouts := layouts plot @ [labels]\<rparr>, self))
       [0..<length period_list] (plot, self)"

text \<open>
  The two function bodies of \<^verbatim>\<open>format_xaxis\<close>:
  \<^verbatim>\<open>return tick < 0 ? Math.abs(tick) + " BCE" : tick +  " CE"\<close> and
  \<^verbatim>\<open>return tick < 0 ? Math.abs(tick) + " BC" : tick +  " AD"\<close>.
\<close>

definition code_scientific :: js_expr where
  "code_scientific =
     Cond (Lt Tick (NumLit 0)) (Plus (MathAbs Tick) (StrLit '' BCE'')) (Plus Tick (StrLit '' CE''))"

definition code_traditional :: js_expr where
  "code_traditional =
     Cond (Lt Tick (NumLit 0)) (Plus (MathAbs Tick) (StrLit '' BC'')) (Plus Tick (StrLit '' AD''))"

definition format_xaxis ::
  "HistoricalTimelineRenderer \<Rightarrow> figure \<Rightarrow> bool \<Rightarrow> figure \<times> HistoricalTimelineRenderer"
where
  "format_xaxis self plot scientific =
     (let code = (if scientific then code_scientific else code_traditional)
      in (plot\<lparr>xaxis_formatter := Some (CustomJSTickFormatter code)\<rparr>, self))"

definition render_timeline ::
  "HistoricalTimelineRenderer \<Rightarrow> (error + figure) \<times> HistoricalTimelineRenderer"
where
  "render_timeline self =
     (let event_dict = create_event_dict (tl' self);
          period_list = create_period_list (tl' self);
          (source, self) = get_source_from_event_dict self event_dict;
          (r, self) = get_y_range self event_dict period_list
      in case r of
           Inl e \<Rightarrow> (Inl e, self)
         | Inr y_range' \<Rightarrow>
             let (p, self) = setup_figure self
                   \<lparr>fig_title = title (tl' self), x_axis_label = ''year'',
                    y_axis_label = ''category'', fig_height = 400, fig_width = 1600,
                    y_range = y_range', background_fill_color = bg_color self,
                    border_fill_color = bg_color self, background_fill_alpha = bg_alpha self,
                    border_fill_alpha = bg_alpha self, fig_tools = tools self\<rparr>;
                 (p, self) = event_tooltips self p [''title'', ''description''];
                 (p, self) = render_events self p source ''dates'' ''label'' 20;
                 (p, self) = render_periods self p period_list (3 / 10);
                 (p, self) = period_labels self p period_list ''title'' (- 8) ''11px''
                               ''#555555'' ''center'';
                 (p, self) = event_labels self p source ''dates'' ''label'' ''title'' 0 ''13px''
                               ''#555555'' ''center'';
                 (p, self) = format_xaxis self p False
             in (Inr p, self))"

text \<open>
  \<^verbatim>\<open>output_timeline\<close> has no \<^verbatim>\<open>return\<close>: what it yields is the effect it performs,
  or the error raised on the way, by \<^verbatim>\<open>render_timeline\<close> before any call of the library
  or by the library in the one call made.
\<close>

definition output_timeline ::
  "HistoricalTimelineRenderer \<Rightarrow> string \<Rightarrow> bool \<Rightarrow> library
     \<Rightarrow> (error + io_effect list) \<times> HistoricalTimelineRenderer"
where
  "output_timeline self output show_timeline library =
     (let (r, self) = render_timeline self
      in case r of
           Inl e \<Rightarrow> (Inl e, self)
         | Inr p \<Rightarrow>
             if show_timeline then
               (case library (Show p (title (tl' self))) of
                  Some e \<Rightarrow> (Inl e, self)
                | None \<Rightarrow> (Inr [Show p (title (tl' self))], self))
             else
               (case library (Save p output (title (tl' self))) of
                  Some e \<Rightarrow> (Inl e, self)
                | None \<Rightarrow> (Inr [Save p output (title (tl' self))], self)))"

section \<open>Specification vocabulary\<close>

text \<open>
  The row identifiers of the periods, as the specification words them: one
  \<^verbatim>\<open>"p" + str(i)\<close> per period, in index order.
\<close>

definition synthetic_rows :: "nat \<Rightarrow> pyval list" where
  "synthetic_rows n = map (\<lambda>i. Str (''p'' @ str (int i))) [0..<n]"

text \<open>
  The labels that follow the rows \<open>rows\<close>, as the specification words them: the label at
  position \<open>i\<close> is kept when it is not among \<open>rows\<close> and has not occurred at an earlier
  position, so every kept label stands at its first occurrence.
\<close>

definition new_labels :: "pyval list \<Rightarrow> pyval list \<Rightarrow> pyval list" where
  "new_labels rows labels =
     map (\<lambda>i. labels ! i)
       (filter (\<lambda>i. labels ! i \<notin> set rows \<and> labels ! i \<notin> set (take i labels))
          [0..<length labels])"

text \<open>
  JavaScript prints an integer of magnitude at most \<open>2^53\<close> in decimal, as Python's
  \<^verbatim>\<open>str\<close> does; this is that property of a number-to-string conversion.
\<close>

definition prints_safe_integers :: "(rat \<Rightarrow> string) \<Rightarrow> bool" where
  "prints_safe_integers to_string \<longleftrightarrow>
     (\<forall>n :: int. abs n \<le> 2 ^ 53 \<longrightarrow> to_string (of_int n) = str n)"

text \<open>A conversion with that property: the decimal form of the integer part.\<close>

definition integer_part_to_string :: "rat \<Rightarrow> string" where
  "integer_part_to_string x = str (floor x)"

text \<open>
  The full chart of a timeline whose events have the labels \<open>labels\<close>: the figure with
  its title, axis labels, size, y-range, colours and tools, without logo; the scatter of the
  events followed by one bar per period; one label set per period followed by the label set
  of the events; the BC/AD formatter.
\<close>

definition full_chart :: "HistoricalTimelineRenderer \<Rightarrow> pyval list \<Rightarrow> figure" where
  "full_chart self labels =
     (let events = create_event_dict (tl' self);
          periods = create_period_list (tl' self);
          rows = synthetic_rows (length periods)
      in \<lparr>kwargs =
             \<lparr>fig_title = title (tl' self), x_axis_label = ''year'',
              y_axis_label = ''category'', fig_height = 400, fig_width = 1600,
              y_range = rows @ new_labels rows labels,
              background_fill_color = bg_color self, border_fill_color = bg_color self,
              background_fill_alpha = bg_alpha self, border_fill_alpha = bg_alpha self,
              fig_tools = tools self\<rparr>,
          toolbar_logo = None,
          hover = [],
          renderers =
            Scatter ''dates'' ''label'' 20 (ColumnDataSource events) (event_color self)
            # map (\<lambda>i. HBar ''start'' ''end'' (Value (''p'' @ str (int i))) (3 / 10)
                          (period_color self) (ColumnDataSource (periods ! i)))
                [0..<length periods],
          layouts =
            map (\<lambda>i. \<lparr>ls_x = ''mid'', ls_y = Value (''p'' @ str (int i)), ls_text = ''title'',
                       ls_y_offset = - 8, ls_text_font_size = ''11px'',
                       ls_text_color = ''#555555'', ls_text_align = ''center'',
                       ls_source = ColumnDataSource (periods ! i)\<rparr>)
              [0..<length periods]
            @ [\<lparr>ls_x = ''dates'', ls_y = Field ''label'', ls_text = ''title'', ls_y_offset = 0,
                ls_text_font_size = ''13px'', ls_text_color = ''#555555'',
                ls_text_align = ''center'', ls_source = ColumnDataSource events\<rparr>],
          xaxis_formatter = Some (CustomJSTickFormatter code_traditional)\<rparr>)"

text \<open>The y-range of the chart that the end-to-end path renders.\<close>

definition rendered_y_range :: "HistoricalTimelineRenderer \<Rightarrow> error + pyval list" where
  "rendered_y_range self = map_sum id (\<lambda>p. y_range (kwargs p)) (fst (render_timeline self))"

fun effect_figure :: "io_effect \<Rightarrow> figure" where
  "effect_figure (Show p t) = p"
| "effect_figure (Save p out t) = p"

subsection \<open>A small timeline\<close>

definition rome_events :: pydict where
  "rome_events =
     [''dates'' \<mapsto> [Num (- 44), Num 330, Num 476, Num 1453],
      ''label'' \<mapsto> [Str ''rome'', Str ''p0'', Str ''byzantium'', Str ''rome''],
      ''title'' \<mapsto> [Str ''Caesar'', Str ''Constantinople'', Str ''Odoacer'', Str ''Mehmed''],
      ''description'' \<mapsto> [Str ''a'', Str ''b'', Str ''c'', Str ''d'']]"

definition rome_period :: pydict where
  "rome_period =
     [''start'' \<mapsto> [Num (- 27)], ''end'' \<mapsto> [Num 476], ''mid'' \<mapsto> [Num 224],
      ''title'' \<mapsto> [Str ''Empire'']]"

definition rome_renderer :: HistoricalTimelineRenderer where
  "rome_renderer =
     init \<lparr>title = ''Rome'', create_event_dict = rome_events,
           create_period_list = [rome_period]\<rparr> ''white'' 1 ''red'' ''blue''"

text \<open>The same events with no period.\<close>

definition events_only_renderer :: HistoricalTimelineRenderer where
  "events_only_renderer =
     init \<lparr>title = ''Rome'', create_event_dict = rome_events, create_period_list = []\<rparr>
       ''white'' 1 ''red'' ''blue''"

text \<open>A timeline whose event dictionary has no \<^verbatim>\<open>'label'\<close> entry.\<close>

definition unlabelled_renderer :: HistoricalTimelineRenderer where
  "unlabelled_renderer =
     init \<lparr>title = ''Rome'', create_event_dict = Map.empty, create_period_list = []\<rparr>
       ''white'' 1 ''red'' ''blue''"

text \<open>
  Two libraries: one whose calls return, and one that refuses a chart whose tools belong
  to an earlier document.
\<close>

definition library_returns :: library where
  "library_returns call = None"

definition library_raises :: library where
  "library_raises call = Some (RuntimeError ''Models must be owned by only a single document'')"

text \<open>A plot without hover tool, and the same plot with one.\<close>

definition empty_plot :: figure where
  "empty_plot =
     bokeh_figure \<lparr>fig_title = ''Rome'', x_axis_label = ''year'', y_axis_label = ''category'',
       fig_height = 400, fig_width = 1600, y_range = [], background_fill_color = ''white'',
       border_fill_color = ''white'', background_fill_alpha = 1, border_fill_alpha = 1,
       fig_tools = []\<rparr>"

definition hover_plot :: figure where
  "hover_plot = empty_plot\<lparr>hover := [\<lparr>tooltips = [(''index'', ''$index'')]\<rparr>]\<rparr>"

section \<open>Decimal rendering is injective\<close>

lemma digit_char_inj: "a < 10 \<Longrightarrow> b < 10 \<Longrightarrow> digit_char a = digit_char b \<Longrightarrow> a = b"
proof -
  assume a: "a < 10" and b: "b < 10" and e: "digit_char a = digit_char b"
  have d: "distinct ''0123456789''" by simp
  have "length ''0123456789'' = 10" by simp
  with a b e d show "a = b"
    unfolding digit_char_def by (metis nth_eq_iff_index_eq)
qed

lemma str_nat_nonempty: "str_nat n \<noteq> []"
  by (subst str_nat.simps) simp

lemma str_nat_inj: "str_nat n = str_nat m \<Longrightarrow> n = m"
proof (induction n arbitrary: m rule: str_nat.induct)
  case (1 n)
  show ?case
  proof (cases "n < 10")
    case True
    then have n: "str_nat n = [digit_char n]" by (subst str_nat.simps) simp
    show ?thesis
    proof (cases "m < 10")
      case mt: True
      then have "str_nat m = [digit_char m]" by (subst str_nat.simps) simp
      with n 1(2) True mt show ?thesis by (simp add: digit_char_inj)
    next
      case False
      then have "str_nat m = str_nat (m div 10) @ [digit_char (m mod 10)]"
        by (subst str_nat.simps) simp
      with n 1(2) str_nat_nonempty [of "m div 10"] show ?thesis by simp
    qed
  next
    case False
    then have n: "str_nat n = str_nat (n div 10) @ [digit_char (n mod 10)]"
      by (subst str_nat.simps) simp
    show ?thesis
    proof (cases "m < 10")
      case True
      then have "str_nat m = [digit_char m]" by (subst str_nat.simps) simp
      with n 1(2) str_nat_nonempty [of "n div 10"] show ?thesis by simp
    next
      case mf: False
      then have "str_nat m = str_nat (m div 10) @ [digit_char (m mod 10)]"
        by (subst str_nat.simps) simp
      with n 1(2) have e1: "str_nat (n div 10) = str_nat (m div 10)"
        and e2: "digit_char (n mod 10) = digit_char (m mod 10)" by simp_all
      from 1(1) [OF False e1] have "n div 10 = m div 10" .
      moreover from e2 have "n mod 10 = m mod 10" by (simp add: digit_char_inj)
      ultimately show ?thesis by (metis div_mult_mod_eq)
    qed
  qed
qed

lemma str_int_inj: "str (int i) = str (int j) \<Longrightarrow> i = j"
  by (simp add: str_def str_nat_inj)

lemma distinct_synthetic_rows: "distinct (synthetic_rows n)"
  unfolding synthetic_rows_def
  by (simp add: distinct_map inj_on_def str_int_inj)

section \<open>The two loops of \<^verbatim>\<open>get_y_range\<close>\<close>

lemma fold_snoc_map: "fold (\<lambda>i ys. ys @ [f i]) xs acc = acc @ map f xs"
  by (induction xs arbitrary: acc) simp_all

lemma new_labels_snoc:
  "new_labels ys (xs @ [x]) = new_labels ys xs @ (if x \<notin> set ys \<and> x \<notin> set xs then [x] else [])"
proof -
  let ?P' = "\<lambda>i. (xs @ [x]) ! i \<notin> set ys \<and> (xs @ [x]) ! i \<notin> set (take i (xs @ [x]))"
  let ?P = "\<lambda>i. xs ! i \<notin> set ys \<and> xs ! i \<notin> set (take i xs)"
  have f: "filter ?P' [0..<length xs] = filter ?P [0..<length xs]"
    by (rule filter_cong) (simp_all add: nth_append)
  have m: "map ((!) (xs @ [x])) (filter ?P [0..<length xs])
             = map ((!) xs) (filter ?P [0..<length xs])"
    by (rule map_cong) (simp_all add: nth_append)
  have old: "map ((!) (xs @ [x])) (filter ?P' [0..<length xs]) = new_labels ys xs"
    unfolding new_labels_def by (simp only: f m)
  have last: "map ((!) (xs @ [x])) (filter ?P' [length xs])
                = (if x \<notin> set ys \<and> x \<notin> set xs then [x] else [])"
    by simp
  have "new_labels ys (xs @ [x])
          = map ((!) (xs @ [x])) (filter ?P' [0..<length xs])
            @ map ((!) (xs @ [x])) (filter ?P' [length xs])"
    by (simp only: new_labels_def length_append_singleton upt_Suc_append [OF le0]
          filter_append map_append)
  then show ?thesis by (simp only: old last)
qed

lemma set_new_labels: "set (new_labels ys xs) = set xs - set ys"
proof (induction xs rule: rev_induct)
  case Nil
  show ?case by (simp add: new_labels_def)
next
  case (snoc x xs)
  then show ?case by (auto simp: new_labels_snoc)
qed

lemma distinct_new_labels: "distinct (new_labels ys xs)"
proof (induction xs rule: rev_induct)
  case Nil
  show ?case by (simp add: new_labels_def)
next
  case (snoc x xs)
  then show ?case by (simp add: new_labels_snoc set_new_labels)
qed

lemma new_labels_id: "distinct xs \<Longrightarrow> new_labels [] xs = xs"
proof (induction xs rule: rev_induct)
  case Nil
  show ?case by (simp add: new_labels_def)
next
  case (snoc x xs)
  then show ?case by (simp add: new_labels_snoc)
qed

lemma fold_new_labels:
  "fold (\<lambda>label ys. if label \<notin> set ys then ys @ [label] else ys) xs ys = ys @ new_labels ys xs"
proof (induction xs rule: rev_induct)
  case Nil
  show ?case by (simp add: new_labels_def)
next
  case (snoc x xs)
  then show ?case by (simp add: new_labels_snoc set_new_labels)
qed

lemma get_y_range_eq:
  "get_y_range self event_dict period_list =
     (case event_dict ''label'' of
        None \<Rightarrow> (Inl (KeyError ''label''), self)
      | Some labels \<Rightarrow>
          (Inr (synthetic_rows (length period_list)
                 @ new_labels (synthetic_rows (length period_list)) labels), self))"
  by (simp add: get_y_range_def fold_snoc_map fold_new_labels synthetic_rows_def
        split: option.splits)

section \<open>The loops over the periods and the rendered chart\<close>

lemma fold_hbar:
  "fold (\<lambda>i (plot, self).
           let period_group = period_list ! i;
               (source, self) = get_source_from_event_dict self period_group
           in (plot\<lparr>renderers := renderers plot @
                  [HBar ''start'' ''end'' (Value (''p'' @ str (int i))) height
                     (period_color self) source]\<rparr>, self))
     is (plot, self)
   = (plot\<lparr>renderers := renderers plot @
        map (\<lambda>i. HBar ''start'' ''end'' (Value (''p'' @ str (int i))) height
                   (period_color self) (ColumnDataSource (period_list ! i))) is\<rparr>, self)"
  by (induction "is" arbitrary: plot) (simp_all add: get_source_from_event_dict_def)

lemma render_periods_eq:
  "render_periods self plot period_list height =
     (plot\<lparr>renderers := renderers plot @
        map (\<lambda>i. HBar ''start'' ''end'' (Value (''p'' @ str (int i))) height
                   (period_color self) (ColumnDataSource (period_list ! i)))
          [0..<length period_list]\<rparr>, self)"
  unfolding render_periods_def by (rule fold_hbar)

lemma fold_label:
  "fold (\<lambda>i (plot, self).
             let period_group = period_list ! i;
                 (source, self) = get_source_from_event_dict self period_group;
                 labels = \<lparr>ls_x = ''mid'', ls_y = Value (''p'' @ str (int i)), ls_text = txt,
                           ls_y_offset = y_offset, ls_text_font_size = text_font_size,
                           ls_text_color = text_color, ls_text_align = text_align,
                           ls_source = source\<rparr>
             in (plot\<lparr>layouts := layouts plot @ [labels]\<rparr>, self))
     is (plot, self)
   = (plot\<lparr>layouts := layouts plot @
        map (\<lambda>i. \<lparr>ls_x = ''mid'', ls_y = Value (''p'' @ str (int i)), ls_text = txt,
                   ls_y_offset = y_offset, ls_text_font_size = text_font_size,
                   ls_text_color = text_color, ls_text_align = text_align,
                   ls_source = ColumnDataSource (period_list ! i)\<rparr>) is\<rparr>,
      self)"
  by (induction "is" arbitrary: plot) (simp_all add: get_source_from_event_dict_def)

lemma period_labels_eq:
  "period_labels self plot period_list txt y_offset text_font_size text_color text_align =
     (plot\<lparr>layouts := layouts plot @
        map (\<lambda>i. \<lparr>ls_x = ''mid'', ls_y = Value (''p'' @ str (int i)), ls_text = txt,
                   ls_y_offset = y_offset, ls_text_font_size = text_font_size,
                   ls_text_color = text_color, ls_text_align = text_align,
                   ls_source = ColumnDataSource (period_list ! i)\<rparr>)
          [0..<length period_list]\<rparr>, self)"
  unfolding period_labels_def by (rule fold_label)

lemma event_tooltips_eq:
  "event_tooltips self plot names =
     (plot\<lparr>hover := map (\<lambda>h. h\<lparr>tooltips := map (\<lambda>tool. (tool, ''@'' @ tool)) names\<rparr>)
                      (hover plot)\<rparr>, self)"
  by (simp add: event_tooltips_def fold_snoc_map)

lemma render_timeline_error:
  "create_event_dict (tl' self) ''label'' = None \<Longrightarrow>
     render_timeline self = (Inl (KeyError ''label''), self)"
  by (simp add: render_timeline_def get_source_from_event_dict_def get_y_range_eq)

lemma render_timeline_chart:
  assumes "create_event_dict (tl' self) ''label'' = Some labels"
  shows "render_timeline self = (Inr (full_chart self labels), self)"
  using assms
  by (simp add: render_timeline_def get_source_from_event_dict_def get_y_range_eq
        setup_figure_def bokeh_figure_def event_tooltips_eq render_events_def
        render_periods_eq period_labels_eq event_labels_def format_xaxis_def Let_def
        full_chart_def)

lemma render_timeline_ok:
  assumes "create_event_dict (tl' self) ''label'' = Some labels"
  shows "\<exists>p. render_timeline self = (Inr p, self)
     \<and> y_range (kwargs p) = synthetic_rows (length (create_period_list (tl' self)))
          @ new_labels (synthetic_rows (length (create_period_list (tl' self)))) labels
     \<and> xaxis_formatter p = Some (CustomJSTickFormatter code_traditional)"
  by (simp add: render_timeline_chart [OF assms] full_chart_def Let_def)

lemma render_timeline_self: "snd (render_timeline self) = self"
proof (cases "create_event_dict (tl' self) ''label''")
  case None
  then show ?thesis by (simp add: render_timeline_error)
next
  case (Some labels)
  from render_timeline_ok [OF Some] show ?thesis by auto
qed

lemma output_timeline_eq:
  "output_timeline self output show_timeline library =
     (case fst (render_timeline self) of
        Inl e \<Rightarrow> (Inl e, self)
      | Inr p \<Rightarrow>
          (case library (if show_timeline then Show p (title (tl' self))
                         else Save p output (title (tl' self))) of
             Some e \<Rightarrow> (Inl e, self)
           | None \<Rightarrow> (Inr [if show_timeline then Show p (title (tl' self))
                           else Save p output (title (tl' self))], self)))"
proof -
  obtain r where r: "render_timeline self = (r, self)"
    using render_timeline_self [of self] by (cases "render_timeline self") simp
  show ?thesis
    by (cases r) (simp_all add: output_timeline_def r)
qed

section \<open>The two formatter bodies\<close>

lemma format_tick_traditional:
  "format_tick to_string (CustomJSTickFormatter code_traditional) t =
     Some (if t < 0 then to_string (abs t) @ '' BC'' else to_string t @ '' AD'')"
  by (simp add: format_tick_def code_traditional_def)

lemma format_tick_scientific:
  "format_tick to_string (CustomJSTickFormatter code_scientific) t =
     Some (if t < 0 then to_string (abs t) @ '' BCE'' else to_string t @ '' CE'')"
  by (simp add: format_tick_def code_scientific_def)

lemma prints_safe_integers_integer_part: "prints_safe_integers integer_part_to_string"
  by (simp add: prints_safe_integers_def integer_part_to_string_def)

section \<open>The claims of the specification\<close>

subsection \<open>C1\<close>

text \<open>
  Claim C1. When the event dictionary has a \<^verbatim>\<open>'label'\<close> entry, \<^verbatim>\<open>get_y_range\<close> returns the
  synthetic row identifiers \<^verbatim>\<open>"p" + str(i)\<close>, one per period in index order
  \<open>0..len(period_list) - 1\<close>, followed by the event labels that are not already in the
  list, each at its first occurrence; the result has no duplicates.
\<close>

theorem get_y_range_rows_then_new_labels:
  assumes "event_dict ''label'' = Some labels"
  shows "fst (get_y_range self event_dict period_list)
           = Inr (map (\<lambda>i. Str (''p'' @ str (int i))) [0..<length period_list]
                  @ new_labels (synthetic_rows (length period_list)) labels)
         \<and> distinct (map (\<lambda>i. Str (''p'' @ str (int i))) [0..<length period_list]
                      @ new_labels (synthetic_rows (length period_list)) labels)"
  using assms distinct_synthetic_rows [of "length period_list"]
  by (auto simp: get_y_range_eq synthetic_rows_def distinct_new_labels set_new_labels)

theorem get_y_range_rows_then_new_labels_witness:
  "rome_events ''label'' = Some [Str ''rome'', Str ''p0'', Str ''byzantium'', Str ''rome'']
   \<and> fst (get_y_range rome_renderer rome_events [rome_period])
       = Inr [Str ''p0'', Str ''rome'', Str ''byzantium'']
   \<and> distinct [Str ''p0'', Str ''rome'', Str ''byzantium'']"
proof -
  have h: "rome_events ''label'' = Some [Str ''rome'', Str ''p0'', Str ''byzantium'', Str ''rome'']"
    by (simp add: rome_events_def)
  have s: "str 0 = ''0''"
    by (simp add: str_def str_nat.simps digit_char_def)
  show ?thesis
    using h get_y_range_rows_then_new_labels
        [where event_dict = rome_events and self = rome_renderer
           and period_list = "[rome_period]", OF h]
    by (simp add: synthetic_rows_def new_labels_def s)
qed

subsection \<open>C2\<close>

text \<open>
  The bar drawn for the one period of the small timeline has its \<^verbatim>\<open>left\<close> edge on the
  column \<^verbatim>\<open>'end'\<close> and its \<^verbatim>\<open>right\<close> edge on \<^verbatim>\<open>'start'\<close>, not the other way round.
\<close>

theorem render_periods_bars_counterexample:
  "map hb_left (renderers (fst (render_periods rome_renderer empty_plot [rome_period] (3 / 10))))
     = [''end'']
   \<and> map hb_right (renderers (fst (render_periods rome_renderer empty_plot [rome_period] (3 / 10))))
     = [''start'']
   \<and> ''end'' \<noteq> ''start''"
  by (simp add: render_periods_eq empty_plot_def bokeh_figure_def)

text \<open>
  Claim C2, as the code has it. \<^verbatim>\<open>render_periods\<close> appends one horizontal bar per
  period, in index order, at the row \<^verbatim>\<open>value("p" + str(i))\<close>, with the renderer's
  period colour, the given height and the period's own data as source. The bar lies between
  the columns \<^verbatim>\<open>'start'\<close> and \<^verbatim>\<open>'end'\<close>; its \<^verbatim>\<open>right\<close> edge is bound to
  \<^verbatim>\<open>'start'\<close> and its \<^verbatim>\<open>left\<close> edge to \<^verbatim>\<open>'end'\<close>.
\<close>

theorem render_periods_bars:
  assumes "i < length period_list"
  shows "fst (render_periods self plot period_list height) =
           plot\<lparr>renderers := renderers plot @
             map (\<lambda>i. HBar ''start'' ''end'' (Value (''p'' @ str (int i))) height
                        (period_color self) (ColumnDataSource (period_list ! i)))
               [0..<length period_list]\<rparr>
         \<and> hb_right (renderers (fst (render_periods self plot period_list height))
                       ! (length (renderers plot) + i)) = ''start''
         \<and> hb_left (renderers (fst (render_periods self plot period_list height))
                      ! (length (renderers plot) + i)) = ''end''
         \<and> hb_y (renderers (fst (render_periods self plot period_list height))
                   ! (length (renderers plot) + i)) = Value (''p'' @ str (int i))
         \<and> hb_height (renderers (fst (render_periods self plot period_list height))
                        ! (length (renderers plot) + i)) = height
         \<and> hb_color (renderers (fst (render_periods self plot period_list height))
                       ! (length (renderers plot) + i)) = period_color self
         \<and> hb_source (renderers (fst (render_periods self plot period_list height))
                        ! (length (renderers plot) + i)) = ColumnDataSource (period_list ! i)"
  using assms by (simp add: render_periods_eq nth_append)

theorem render_periods_bars_witness:
  "(0 :: nat) < length [rome_period]
   \<and> renderers (fst (render_periods rome_renderer empty_plot [rome_period] (3 / 10)))
       = [HBar ''start'' ''end'' (Value ''p0'') (3 / 10) ''red'' (ColumnDataSource rome_period)]"
proof -
  have h: "(0 :: nat) < length [rome_period]" by simp
  have s: "str 0 = ''0''"
    by (simp add: str_def str_nat.simps digit_char_def)
  show ?thesis
    using h render_periods_bars [OF h, of rome_renderer empty_plot "3 / 10"]
    by (simp add: rome_renderer_def init_def empty_plot_def bokeh_figure_def s)
qed

subsection \<open>C3\<close>

text \<open>
  Claim C3. The formatter that \<^verbatim>\<open>format_xaxis\<close> installs maps a negative tick \<open>t\<close> to
  the string form of \<open>abs t\<close> followed by \<^verbatim>\<open>" BC"\<close> and a non-negative tick to the string
  form of \<open>t\<close> followed by \<^verbatim>\<open>" AD"\<close> when the scientific flag is false, and to
  \<^verbatim>\<open>" BCE"\<close> and \<^verbatim>\<open>" CE"\<close> when it is true. This holds for every tick, fractional or
  large, with the string form that JavaScript gives the number; for an integer tick \<open>n\<close> of
  magnitude at most \<open>2^53\<close> that string form is the decimal \<^verbatim>\<open>str(abs(n))\<close>,
  \<^verbatim>\<open>str(n)\<close> of Python.
\<close>

theorem format_xaxis_tick_wording:
  "xaxis_formatter (fst (format_xaxis self plot False))
      = Some (CustomJSTickFormatter code_traditional)
   \<and> xaxis_formatter (fst (format_xaxis self plot True))
      = Some (CustomJSTickFormatter code_scientific)
   \<and> (t < 0 \<longrightarrow>
        format_tick to_string (CustomJSTickFormatter code_traditional) t
          = Some (to_string (abs t) @ '' BC'')
      \<and> format_tick to_string (CustomJSTickFormatter code_scientific) t
          = Some (to_string (abs t) @ '' BCE''))
   \<and> (0 \<le> t \<longrightarrow>
        format_tick to_string (CustomJSTickFormatter code_traditional) t
          = Some (to_string t @ '' AD'')
      \<and> format_tick to_string (CustomJSTickFormatter code_scientific) t
          = Some (to_string t @ '' CE''))
   \<and> (prints_safe_integers to_string \<and> abs n \<le> 2 ^ 53 \<and> n < 0 \<longrightarrow>
        format_tick to_string (CustomJSTickFormatter code_traditional) (of_int n)
          = Some (str (abs n) @ '' BC'')
      \<and> format_tick to_string (CustomJSTickFormatter code_scientific) (of_int n)
          = Some (str (abs n) @ '' BCE''))
   \<and> (prints_safe_integers to_string \<and> abs n \<le> 2 ^ 53 \<and> 0 \<le> n \<longrightarrow>
        format_tick to_string (CustomJSTickFormatter code_traditional) (of_int n)
          = Some (str n @ '' AD'')
      \<and> format_tick to_string (CustomJSTickFormatter code_scientific) (of_int n)
          = Some (str n @ '' CE''))"
proof -
  let ?trad = "CustomJSTickFormatter code_traditional"
  let ?sci = "CustomJSTickFormatter code_scientific"
  have c1: "xaxis_formatter (fst (format_xaxis self plot False)) = Some ?trad"
    and c2: "xaxis_formatter (fst (format_xaxis self plot True)) = Some ?sci"
    by (simp_all add: format_xaxis_def)
  have c3: "t < 0 \<longrightarrow>
        format_tick to_string ?trad t = Some (to_string (abs t) @ '' BC'')
      \<and> format_tick to_string ?sci t = Some (to_string (abs t) @ '' BCE'')"
    by (simp add: format_tick_traditional format_tick_scientific)
  have c4: "0 \<le> t \<longrightarrow>
        format_tick to_string ?trad t = Some (to_string t @ '' AD'')
      \<and> format_tick to_string ?sci t = Some (to_string t @ '' CE'')"
    by (simp add: format_tick_traditional format_tick_scientific)
  have c5: "prints_safe_integers to_string \<and> abs n \<le> 2 ^ 53 \<and> n < 0 \<longrightarrow>
        format_tick to_string ?trad (of_int n) = Some (str (abs n) @ '' BC'')
      \<and> format_tick to_string ?sci (of_int n) = Some (str (abs n) @ '' BCE'')"
  proof (intro impI)
    assume h: "prints_safe_integers to_string \<and> abs n \<le> 2 ^ 53 \<and> n < 0"
    then have "abs n \<le> 2 ^ 53" by blast
    then have "abs (abs n) \<le> 2 ^ 53" by (simp only: abs_abs)
    with h have "to_string (of_int (abs n)) = str (abs n)"
      unfolding prints_safe_integers_def by blast
    then have eq: "to_string (abs (of_int n)) = str (abs n)" by simp
    from h have neg: "(of_int n :: rat) < 0" by simp
    have f1: "format_tick to_string ?trad (of_int n) = Some (to_string (abs (of_int n)) @ '' BC'')"
      and f2: "format_tick to_string ?sci (of_int n) = Some (to_string (abs (of_int n)) @ '' BCE'')"
      using neg by (simp_all add: format_tick_traditional format_tick_scientific)
    show "format_tick to_string ?trad (of_int n) = Some (str (abs n) @ '' BC'')
      \<and> format_tick to_string ?sci (of_int n) = Some (str (abs n) @ '' BCE'')"
      by (simp only: f1 f2 eq)
  qed
  have c6: "prints_safe_integers to_string \<and> abs n \<le> 2 ^ 53 \<and> 0 \<le> n \<longrightarrow>
        format_tick to_string ?trad (of_int n) = Some (str n @ '' AD'')
      \<and> format_tick to_string ?sci (of_int n) = Some (str n @ '' CE'')"
  proof (intro impI)
    assume h: "prints_safe_integers to_string \<and> abs n \<le> 2 ^ 53 \<and> 0 \<le> n"
    then have eq: "to_string (of_int n) = str n"
      unfolding prints_safe_integers_def by blast
    from h have pos: "\<not> (of_int n :: rat) < 0" by simp
    have f1: "format_tick to_string ?trad (of_int n) = Some (to_string (of_int n) @ '' AD'')"
      and f2: "format_tick to_string ?sci (of_int n) = Some (to_string (of_int n) @ '' CE'')"
      using pos by (simp_all add: format_tick_traditional format_tick_scientific)
    show "format_tick to_string ?trad (of_int n) = Some (str n @ '' AD'')
      \<and> format_tick to_string ?sci (of_int n) = Some (str n @ '' CE'')"
      by (simp only: f1 f2 eq)
  qed
  from c1 c2 c3 c4 c5 c6 show ?thesis by blast
qed

theorem format_xaxis_tick_wording_witness:
  "(- 44 :: rat) < 0 \<and> (0 :: rat) \<le> 2024
   \<and> prints_safe_integers integer_part_to_string
   \<and> abs (- 44 :: int) \<le> 2 ^ 53 \<and> (- 44 :: int) < 0
   \<and> abs (2024 :: int) \<le> 2 ^ 53 \<and> (0 :: int) \<le> 2024
   \<and> format_tick integer_part_to_string (CustomJSTickFormatter code_traditional) (- 44)
       = Some ''44 BC''
   \<and> format_tick integer_part_to_string (CustomJSTickFormatter code_scientific) (- 44)
       = Some ''44 BCE''
   \<and> format_tick integer_part_to_string (CustomJSTickFormatter code_traditional) 2024
       = Some ''2024 AD''
   \<and> format_tick integer_part_to_string (CustomJSTickFormatter code_scientific) 2024
       = Some ''2024 CE''"
proof -
  have a: "str 44 = ''44''" and b: "str 2024 = ''2024''"
    by (simp_all add: str_def str_nat.simps digit_char_def)
  have p: "prints_safe_integers integer_part_to_string"
    by (rule prints_safe_integers_integer_part)
  show ?thesis
    using p
      format_xaxis_tick_wording
        [of rome_renderer empty_plot "- 44" integer_part_to_string "- 44"]
      format_xaxis_tick_wording
        [of rome_renderer empty_plot 2024 integer_part_to_string 2024]
    by (simp add: a b integer_part_to_string_def)
qed

subsection \<open>C4\<close>

text \<open>
  Claim C4. The y-range of the rendered chart has as many entries as there are periods plus
  distinct event labels that differ from every synthetic identifier \<^verbatim>\<open>"p" + str(i)\<close> of a
  period; a label equal to such an identifier adds no row.
\<close>

theorem rendered_y_range_length:
  assumes "create_event_dict (tl' self) ''label'' = Some labels"
  shows "\<exists>ys. rendered_y_range self = Inr ys
           \<and> length ys = length (create_period_list (tl' self))
               + card {l \<in> set labels.
                        \<forall>i < length (create_period_list (tl' self)). l \<noteq> Str (''p'' @ str (int i))}"
proof -
  let ?n = "length (create_period_list (tl' self))"
  let ?rows = "synthetic_rows ?n"
  have s: "{l \<in> set labels. \<forall>i < ?n. l \<noteq> Str (''p'' @ str (int i))} = set labels - set ?rows"
    by (auto simp: synthetic_rows_def)
  from render_timeline_ok [OF assms]
  have y: "rendered_y_range self = Inr (?rows @ new_labels ?rows labels)"
    by (auto simp: rendered_y_range_def)
  have "length (?rows @ new_labels ?rows labels) = ?n + length (new_labels ?rows labels)"
    by (simp add: synthetic_rows_def)
  also have "length (new_labels ?rows labels) = card (set labels - set ?rows)"
    using distinct_card [OF distinct_new_labels [of ?rows labels]]
    by (simp add: set_new_labels)
  finally have "length (?rows @ new_labels ?rows labels)
                  = ?n + card {l \<in> set labels. \<forall>i < ?n. l \<noteq> Str (''p'' @ str (int i))}"
    by (simp only: s)
  with y show ?thesis by blast
qed

theorem rendered_y_range_length_witness:
  "create_event_dict (tl' rome_renderer) ''label''
     = Some [Str ''rome'', Str ''p0'', Str ''byzantium'', Str ''rome'']
   \<and> length (create_period_list (tl' rome_renderer)) = 1
   \<and> card {l \<in> set [Str ''rome'', Str ''p0'', Str ''byzantium'', Str ''rome''].
            \<forall>i < (1 :: nat). l \<noteq> Str (''p'' @ str (int i))} = 2
   \<and> (\<exists>ys. rendered_y_range rome_renderer = Inr ys \<and> length ys = 3)"
proof -
  have h: "create_event_dict (tl' rome_renderer) ''label''
             = Some [Str ''rome'', Str ''p0'', Str ''byzantium'', Str ''rome'']"
    by (simp add: rome_renderer_def init_def rome_events_def)
  have n: "length (create_period_list (tl' rome_renderer)) = 1"
    by (simp add: rome_renderer_def init_def)
  have s: "str 0 = ''0''"
    by (simp add: str_def str_nat.simps digit_char_def)
  have e: "{l \<in> set [Str ''rome'', Str ''p0'', Str ''byzantium'', Str ''rome''].
             \<forall>i < (1 :: nat). l \<noteq> Str (''p'' @ str (int i))}
           = {Str ''rome'', Str ''byzantium''}"
    by (auto simp: s)
  have c: "card {l \<in> set [Str ''rome'', Str ''p0'', Str ''byzantium'', Str ''rome''].
             \<forall>i < (1 :: nat). l \<noteq> Str (''p'' @ str (int i))} = 2"
    by (simp only: e) simp
  have three: "(1 :: nat) + 2 = 3" by simp
  from rendered_y_range_length [OF h]
  have "\<exists>ys. rendered_y_range rome_renderer = Inr ys \<and> length ys = 3"
    by (simp only: n c three)
  with h n c show ?thesis by blast
qed

subsection \<open>C5\<close>

text \<open>
  With no period and the labels \<open>rome, p0, byzantium, rome\<close>, the rendered y-range is
  \<open>rome, p0, byzantium\<close>: the repeated label is dropped, so the y-range is not the list
  of event labels.
\<close>

theorem rendered_y_range_no_periods_counterexample:
  "create_period_list (tl' events_only_renderer) = []
   \<and> create_event_dict (tl' events_only_renderer) ''label''
       = Some [Str ''rome'', Str ''p0'', Str ''byzantium'', Str ''rome'']
   \<and> rendered_y_range events_only_renderer = Inr [Str ''rome'', Str ''p0'', Str ''byzantium'']
   \<and> rendered_y_range events_only_renderer
       \<noteq> Inr [Str ''rome'', Str ''p0'', Str ''byzantium'', Str ''rome'']"
proof -
  have h: "create_event_dict (tl' events_only_renderer) ''label''
             = Some [Str ''rome'', Str ''p0'', Str ''byzantium'', Str ''rome'']"
    by (simp add: events_only_renderer_def init_def rome_events_def)
  have n: "create_period_list (tl' events_only_renderer) = []"
    by (simp add: events_only_renderer_def init_def)
  from render_timeline_ok [OF h]
  have "rendered_y_range events_only_renderer
          = Inr (new_labels [] [Str ''rome'', Str ''p0'', Str ''byzantium'', Str ''rome''])"
    by (auto simp: rendered_y_range_def n synthetic_rows_def)
  then have "rendered_y_range events_only_renderer
               = Inr [Str ''rome'', Str ''p0'', Str ''byzantium'']"
    by (simp add: new_labels_def)
  with h n show ?thesis by simp
qed

text \<open>
  Claim C5, as the code has it. With an empty period list and an event dictionary that has a
  \<^verbatim>\<open>'label'\<close> entry, the y-range of the rendered chart holds the event labels with every
  repeated occurrence dropped, in first-occurrence order, and no synthetic row; it is the
  list \<^verbatim>\<open>event_dict['label']\<close> itself exactly when the labels are pairwise distinct.
\<close>

theorem rendered_y_range_no_periods:
  assumes "create_period_list (tl' self) = []"
      and "create_event_dict (tl' self) ''label'' = Some labels"
  shows "rendered_y_range self = Inr (new_labels [] labels)
         \<and> distinct (new_labels [] labels)
         \<and> set (new_labels [] labels) = set labels
         \<and> (rendered_y_range self = Inr labels \<longleftrightarrow> distinct labels)"
proof -
  from render_timeline_ok [OF assms(2)] assms(1)
  have y: "rendered_y_range self = Inr (new_labels [] labels)"
    by (auto simp: rendered_y_range_def synthetic_rows_def)
  have "new_labels [] labels = labels \<longleftrightarrow> distinct labels"
    using distinct_new_labels [of "[]" labels] new_labels_id [of labels] by auto
  with y show ?thesis by (simp add: distinct_new_labels set_new_labels)
qed

theorem rendered_y_range_no_periods_witness:
  "create_period_list (tl' events_only_renderer) = []
   \<and> create_event_dict (tl' events_only_renderer) ''label''
       = Some [Str ''rome'', Str ''p0'', Str ''byzantium'', Str ''rome'']
   \<and> rendered_y_range events_only_renderer
       = Inr (new_labels [] [Str ''rome'', Str ''p0'', Str ''byzantium'', Str ''rome''])
   \<and> new_labels [] [Str ''rome'', Str ''p0'', Str ''byzantium'', Str ''rome'']
       = [Str ''rome'', Str ''p0'', Str ''byzantium'']"
proof -
  have h: "create_event_dict (tl' events_only_renderer) ''label''
             = Some [Str ''rome'', Str ''p0'', Str ''byzantium'', Str ''rome'']"
    by (simp add: events_only_renderer_def init_def rome_events_def)
  have n: "create_period_list (tl' events_only_renderer) = []"
    by (simp add: events_only_renderer_def init_def)
  have e: "new_labels [] [Str ''rome'', Str ''p0'', Str ''byzantium'', Str ''rome'']
             = [Str ''rome'', Str ''p0'', Str ''byzantium'']"
    by (simp add: new_labels_def)
  show ?thesis
    using h n e rendered_y_range_no_periods [OF n h] by simp
qed

subsection \<open>C6\<close>

text \<open>
  Claim C6, at the plot that the renderer builds. \<^verbatim>\<open>event_tooltips\<close> assigns the pairs
  \<^verbatim>\<open>(name, "@" + name)\<close> to every hover tool of the plot. On a plot without hover tool,
  which is the plot of \<^verbatim>\<open>render_timeline\<close> since the tools of the renderer are a zoom, a
  reset and a pan tool, the assignment reaches nothing: the plot is returned as it was and
  the rendered chart has no tooltips. On a plot with a hover tool the pairs are set, in the
  order of the names.
\<close>

theorem event_tooltips_without_hover_tool:
  "fst (event_tooltips rome_renderer empty_plot [''title'', ''description'']) = empty_plot
   \<and> hover (fst (event_tooltips rome_renderer empty_plot [''title'', ''description''])) = []
   \<and> map_sum id hover (fst (render_timeline rome_renderer)) = Inr []
   \<and> map tooltips (hover (fst (event_tooltips rome_renderer hover_plot [''title'', ''description''])))
       = [[(''title'', ''@title''), (''description'', ''@description'')]]"
proof -
  have h: "create_event_dict (tl' rome_renderer) ''label''
             = Some [Str ''rome'', Str ''p0'', Str ''byzantium'', Str ''rome'']"
    by (simp add: rome_renderer_def init_def rome_events_def)
  have e: "hover empty_plot = []"
    by (simp add: empty_plot_def bokeh_figure_def)
  have r: "map_sum id hover (fst (render_timeline rome_renderer)) = Inr []"
    by (simp add: render_timeline_chart [OF h] full_chart_def Let_def)
  have p: "map tooltips
             (hover (fst (event_tooltips rome_renderer hover_plot [''title'', ''description''])))
           = [[(''title'', ''@title''), (''description'', ''@description'')]]"
    by (simp add: event_tooltips_eq hover_plot_def)
  from e r p show ?thesis by (simp add: event_tooltips_eq)
qed

subsection \<open>C7\<close>

text \<open>
  Claim C7. \<^verbatim>\<open>output_timeline\<close> first renders the full chart: with a \<^verbatim>\<open>'label'\<close> entry the
  rendering yields the figure with its scatter, bars, label sets and formatter, and without
  one the \<^verbatim>\<open>KeyError\<close> propagates before any call of the library. It then makes exactly one
  call on that chart: \<^verbatim>\<open>show\<close> with the title when \<^verbatim>\<open>show_timeline\<close> is true and no
  \<^verbatim>\<open>save\<close>, otherwise \<^verbatim>\<open>save\<close> to the output filename with the title and no \<^verbatim>\<open>show\<close>.
  When the call returns, it is the one effect performed; when the library raises, its error
  propagates and no effect is performed.
\<close>

theorem output_timeline_effects:
  "(create_event_dict (tl' self) ''label'' = Some labels \<longrightarrow>
      fst (render_timeline self) = Inr (full_chart self labels))
   \<and> (create_event_dict (tl' self) ''label'' = None \<longrightarrow>
      fst (output_timeline self output show_timeline library) = Inl (KeyError ''label''))
   \<and> fst (output_timeline self output show_timeline library) =
       (case fst (render_timeline self) of
          Inl e \<Rightarrow> Inl e
        | Inr p \<Rightarrow>
            (case library (if show_timeline then Show p (title (tl' self))
                           else Save p output (title (tl' self))) of
               Some e \<Rightarrow> Inl e
             | None \<Rightarrow> Inr [if show_timeline then Show p (title (tl' self))
                             else Save p output (title (tl' self))]))"
proof -
  have a: "fst (render_timeline self) = Inr (full_chart self labels)"
    if "create_event_dict (tl' self) ''label'' = Some labels"
    by (simp add: render_timeline_chart [OF that])
  have b: "fst (output_timeline self output show_timeline library) = Inl (KeyError ''label'')"
    if "create_event_dict (tl' self) ''label'' = None"
    by (simp add: output_timeline_eq render_timeline_error [OF that])
  have c: "fst (output_timeline self output show_timeline library) =
       (case fst (render_timeline self) of
          Inl e \<Rightarrow> Inl e
        | Inr p \<Rightarrow>
            (case library (if show_timeline then Show p (title (tl' self))
                           else Save p output (title (tl' self))) of
               Some e \<Rightarrow> Inl e
             | None \<Rightarrow> Inr [if show_timeline then Show p (title (tl' self))
                             else Save p output (title (tl' self))]))"
    by (simp add: output_timeline_eq split: sum.splits option.splits)
  from a b c show ?thesis by blast
qed

theorem output_timeline_effects_witness:
  "create_event_dict (tl' rome_renderer) ''label''
     = Some [Str ''rome'', Str ''p0'', Str ''byzantium'', Str ''rome'']
   \<and> create_event_dict (tl' unlabelled_renderer) ''label'' = None
   \<and> fst (render_timeline rome_renderer)
       = Inr (full_chart rome_renderer [Str ''rome'', Str ''p0'', Str ''byzantium'', Str ''rome''])
   \<and> renderers (full_chart rome_renderer [Str ''rome'', Str ''p0'', Str ''byzantium'', Str ''rome''])
       = [Scatter ''dates'' ''label'' 20 (ColumnDataSource rome_events) ''blue'',
          HBar ''start'' ''end'' (Value ''p0'') (3 / 10) ''red'' (ColumnDataSource rome_period)]
   \<and> map ls_x (layouts (full_chart rome_renderer
                          [Str ''rome'', Str ''p0'', Str ''byzantium'', Str ''rome'']))
       = [''mid'', ''dates'']
   \<and> fst (output_timeline rome_renderer ''rome.html'' True library_returns)
       = Inr [Show (full_chart rome_renderer
                      [Str ''rome'', Str ''p0'', Str ''byzantium'', Str ''rome'']) ''Rome'']
   \<and> fst (output_timeline rome_renderer ''rome.html'' False library_returns)
       = Inr [Save (full_chart rome_renderer
                      [Str ''rome'', Str ''p0'', Str ''byzantium'', Str ''rome''])
                ''rome.html'' ''Rome'']
   \<and> fst (output_timeline rome_renderer ''rome.html'' False library_raises)
       = Inl (RuntimeError ''Models must be owned by only a single document'')
   \<and> fst (output_timeline unlabelled_renderer ''rome.html'' False library_returns)
       = Inl (KeyError ''label'')"
proof -
  let ?labels = "[Str ''rome'', Str ''p0'', Str ''byzantium'', Str ''rome'']"
  have h: "create_event_dict (tl' rome_renderer) ''label'' = Some ?labels"
    by (simp add: rome_renderer_def init_def rome_events_def)
  have u: "create_event_dict (tl' unlabelled_renderer) ''label'' = None"
    by (simp add: unlabelled_renderer_def init_def)
  have t: "title (tl' rome_renderer) = ''Rome''"
    by (simp add: rome_renderer_def init_def)
  have s: "str 0 = ''0''"
    by (simp add: str_def str_nat.simps digit_char_def)
  have g: "renderers (full_chart rome_renderer ?labels)
       = [Scatter ''dates'' ''label'' 20 (ColumnDataSource rome_events) ''blue'',
          HBar ''start'' ''end'' (Value ''p0'') (3 / 10) ''red'' (ColumnDataSource rome_period)]"
    by (simp add: full_chart_def Let_def rome_renderer_def init_def s)
  have l: "map ls_x (layouts (full_chart rome_renderer ?labels)) = [''mid'', ''dates'']"
    by (simp add: full_chart_def Let_def rome_renderer_def init_def)
  show ?thesis
    using h u g l
      output_timeline_effects
        [of rome_renderer ?labels "''rome.html''" True library_returns]
      output_timeline_effects
        [of rome_renderer ?labels "''rome.html''" False library_returns]
      output_timeline_effects
        [of rome_renderer ?labels "''rome.html''" False library_raises]
      output_timeline_effects
        [of unlabelled_renderer "[]" "''rome.html''" False library_returns]
    by (simp add: t library_returns_def library_raises_def)
qed

subsection \<open>C8\<close>

text \<open>
  Claim C8. The constructor assigns the six configuration fields, and every other operation
  of the class returns \<open>self\<close> with all of them unchanged.
\<close>

theorem configuration_unchanged:
  "snd (get_source_from_event_dict self event_dict) = self
   \<and> snd (setup_figure self kw) = self
   \<and> snd (get_y_range self event_dict period_list) = self
   \<and> snd (render_events self plot source x y sz) = self
   \<and> snd (render_periods self plot period_list height) = self
   \<and> snd (period_labels self plot period_list txt y_offset font_size color align) = self
   \<and> snd (event_labels self plot source x y txt y_offset font_size color align) = self
   \<and> snd (event_tooltips self plot tooltip_names) = self
   \<and> snd (format_xaxis self plot scientific) = self
   \<and> snd (render_timeline self) = self
   \<and> snd (output_timeline self output show_timeline library) = self
   \<and> init timeline c a pc ec =
       \<lparr>tl' = timeline, bg_color = c, bg_alpha = a, period_color = pc, event_color = ec,
        tools = [BoxZoomTool, ResetTool, PanTool ''width'']\<rparr>"
proof -
  have o: "snd (output_timeline self output show_timeline library) = self"
    by (simp add: output_timeline_eq split: sum.splits option.splits)
  have g: "snd (get_y_range self event_dict period_list) = self"
    by (simp add: get_y_range_eq split: option.splits)
  show ?thesis
    by (simp add: o g render_timeline_self get_source_from_event_dict_def setup_figure_def
          render_events_def render_periods_eq period_labels_eq event_labels_def
          event_tooltips_eq format_xaxis_def init_def)
qed

subsection \<open>C9\<close>

text \<open>
  Claim C9. Every chart that \<^verbatim>\<open>render_timeline\<close> returns, and every chart that
  \<^verbatim>\<open>output_timeline\<close> shows or saves, whatever the library answers, carries the BC/AD
  formatter; with every string form of numbers and at every tick, its output is the BC/AD
  wording and differs from the BCE/CE wording.
\<close>

theorem render_timeline_traditional_wording:
  "(fst (render_timeline self) = Inr p \<longrightarrow>
       xaxis_formatter p = Some (CustomJSTickFormatter code_traditional))
   \<and> (fst (output_timeline self output show_timeline library) = Inr effects \<longrightarrow>
       (\<forall>e \<in> set effects.
          xaxis_formatter (effect_figure e) = Some (CustomJSTickFormatter code_traditional)))
   \<and> format_tick to_string (CustomJSTickFormatter code_traditional) t
       = Some (if t < 0 then to_string (abs t) @ '' BC'' else to_string t @ '' AD'')
   \<and> format_tick to_string (CustomJSTickFormatter code_traditional) t
       \<noteq> format_tick to_string (CustomJSTickFormatter code_scientific) t"
proof -
  have a: "xaxis_formatter q = Some (CustomJSTickFormatter code_traditional)"
    if "fst (render_timeline self) = Inr q" for q
  proof (cases "create_event_dict (tl' self) ''label''")
    case None
    with that show ?thesis by (simp add: render_timeline_error)
  next
    case (Some labels)
    from render_timeline_ok [OF Some] that show ?thesis by auto
  qed
  have b: "\<forall>e \<in> set effects.
             xaxis_formatter (effect_figure e) = Some (CustomJSTickFormatter code_traditional)"
    if e: "fst (output_timeline self output show_timeline library) = Inr effects"
  proof (cases "fst (render_timeline self)")
    case (Inl err)
    with e show ?thesis by (simp add: output_timeline_eq)
  next
    case (Inr q)
    from a [OF Inr] e Inr show ?thesis
      by (auto simp: output_timeline_eq split: option.splits if_splits)
  qed
  have c: "format_tick to_string (CustomJSTickFormatter code_traditional) t
             \<noteq> format_tick to_string (CustomJSTickFormatter code_scientific) t"
    by (simp add: format_tick_traditional format_tick_scientific)
  from a b c show ?thesis by (simp add: format_tick_traditional)
qed

theorem render_timeline_traditional_wording_witness:
  "\<exists>p. fst (render_timeline rome_renderer) = Inr p
     \<and> fst (output_timeline rome_renderer ''rome.html'' False library_returns)
         = Inr [Save p ''rome.html'' ''Rome'']
     \<and> xaxis_formatter p = Some (CustomJSTickFormatter code_traditional)
     \<and> xaxis_formatter (effect_figure (Save p ''rome.html'' ''Rome''))
         = Some (CustomJSTickFormatter code_traditional)"
proof -
  have h: "create_event_dict (tl' rome_renderer) ''label''
             = Some [Str ''rome'', Str ''p0'', Str ''byzantium'', Str ''rome'']"
    by (simp add: rome_renderer_def init_def rome_events_def)
  have t: "title (tl' rome_renderer) = ''Rome''"
    by (simp add: rome_renderer_def init_def)
  from render_timeline_ok [OF h]
  obtain p where p: "render_timeline rome_renderer = (Inr p, rome_renderer)"
    by auto
  then have o: "fst (output_timeline rome_renderer ''rome.html'' False library_returns)
                  = Inr [Save p ''rome.html'' ''Rome'']"
    by (simp add: output_timeline_eq t library_returns_def)
  from p have f: "fst (render_timeline rome_renderer) = Inr p" by simp
  show ?thesis
    using f o
      render_timeline_traditional_wording
        [of rome_renderer p "''rome.html''" False library_returns
            "[Save p ''rome.html'' ''Rome'']" integer_part_to_string 0]
    by simp
qed

subsection \<open>C10\<close>

text \<open>
  Claim C10. Two calls of \<^verbatim>\<open>get_y_range\<close> whose event dictionaries agree on
  \<^verbatim>\<open>'label'\<close> and whose period lists have equal length return the same result, whatever
  the other keys, the contents of the periods and the renderer are.
\<close>

theorem get_y_range_depends_only_on_labels_and_count:
  assumes "event_dict_a ''label'' = event_dict_b ''label''"
      and "length period_list_a = length period_list_b"
  shows "fst (get_y_range self_a event_dict_a period_list_a)
           = fst (get_y_range self_b event_dict_b period_list_b)"
  using assms by (simp add: get_y_range_eq split: option.splits)

theorem get_y_range_depends_only_on_labels_and_count_witness:
  "rome_events ''label''
     = [''label'' \<mapsto> [Str ''rome'', Str ''p0'', Str ''byzantium'', Str ''rome'']] ''label''
   \<and> length [rome_period] = length [Map.empty :: pydict]
   \<and> fst (get_y_range rome_renderer rome_events [rome_period])
       = fst (get_y_range events_only_renderer
                [''label'' \<mapsto> [Str ''rome'', Str ''p0'', Str ''byzantium'', Str ''rome'']]
                [Map.empty])"
proof -
  have h: "rome_events ''label''
     = [''label'' \<mapsto> [Str ''rome'', Str ''p0'', Str ''byzantium'', Str ''rome'']] ''label''"
    by (simp add: rome_events_def)
  have n: "length [rome_period] = length [Map.empty :: pydict]" by simp
  show ?thesis
    using h n
      get_y_range_depends_only_on_labels_and_count
        [where event_dict_a = rome_events
           and event_dict_b = "[''label'' \<mapsto> [Str ''rome'', Str ''p0'', Str ''byzantium'', Str ''rome'']]"
           and period_list_a = "[rome_period]" and period_list_b = "[Map.empty]"
           and self_a = rome_renderer and self_b = events_only_renderer, OF h n]
    by simp
qed
end
